theory Spec2Isabelle
  imports Main
begin

section \<open>JavaScript values used by the sources\<close>

text \<open>
  A JavaScript \<open>throw\<close> can raise any value. The sources raise \<open>Error\<close> objects
  (\<open>new Error(message)\<close>) and the loader's handler tests \<open>error instanceof Error\<close>,
  so a thrown value is either an \<open>Error\<close> with its message or some other value.
  A function that may throw returns \<open>thrown + 'a\<close>, with \<open>Inl\<close> for the raised value.
\<close>

datatype thrown = Error string | NonError

text \<open>
  Header values are byte strings, so a JavaScript string is modelled as a \<open>string\<close>
  of 8-bit characters. Of the code points that \<open>String.prototype.trim\<close> removes, those
  below 256 are TAB, LF, VT, FF, CR, SPACE and NBSP; of the line terminators that the
  regular-expression atom \<open>.\<close> refuses, those below 256 are LF and CR.
\<close>

definition isWhiteSpace :: "char \<Rightarrow> bool" where
  "isWhiteSpace c = (of_char c \<in> set [9, 10, 11, 12, 13, 32, 160 :: nat])"

definition isLineTerminator :: "char \<Rightarrow> bool" where
  "isLineTerminator c = (of_char c \<in> set [10, 13 :: nat])"

definition startsWith :: "string \<Rightarrow> string \<Rightarrow> bool" where
  "startsWith s p = (take (length p) s = p)"

definition substring :: "string \<Rightarrow> nat \<Rightarrow> string" where
  "substring s n = drop n s"

definition trim :: "string \<Rightarrow> string" where
  "trim s = rev (dropWhile isWhiteSpace (rev (dropWhile isWhiteSpace s)))"

text \<open>\<open>!s\<close> on a value of type \<open>string | undefined\<close>: absent or empty.\<close>

definition falsy :: "string option \<Rightarrow> bool" where
  "falsy v = (case v of None \<Rightarrow> True | Some s \<Rightarrow> s = [])"

section \<open>Header extractor (\<open>lib/jwt\<close>, \<open>extractTokenFromHeader\<close>)\<close>

text \<open>
  \<^verbatim>\<open>
  if (!authHeader?.startsWith('Bearer ')) { return null; }
  const token = authHeader.substring(7).trim();
  return token || null;
  \<close>
\<close>

definition extractTokenFromHeader :: "string option \<Rightarrow> string option" where
  "extractTokenFromHeader authHeader =
     (case authHeader of
        None \<Rightarrow> None
      | Some h \<Rightarrow>
          if \<not> startsWith h ''Bearer '' then None
          else (let token = trim (substring h 7)
                in if token = [] then None else Some token))"

text \<open>
  The pattern \<open>^Bearer .+$\<close> of the specification, read as a regular expression without
  flags: the literal prefix, then one or more characters none of which is a line
  terminator, up to the end of the input.
\<close>

definition matches_bearer_pattern :: "string \<Rightarrow> bool" where
  "matches_bearer_pattern h =
     (take 7 h = ''Bearer '' \<and> drop 7 h \<noteq> [] \<and> list_all (\<lambda>c. \<not> isLineTerminator c) (drop 7 h))"

section \<open>Environment configuration (\<open>lib/env.ts\<close>)\<close>

record EnvVariables =
  JWT_SECRET :: string

text \<open>
  \<^verbatim>\<open>
  export const env = { JWT_SECRET: import.meta.env.VITE_JWT_SECRET || '' };
  const requiredVars = ['JWT_SECRET'];
  for (const key of requiredVars) {
    if (!env[key]) console.error(`Missing required environment variable: ${key}`);
  }
  \<close>
  Loading the module reads the configuration value (absent is \<open>None\<close>) and returns the
  exported object together with the lines it wrote to \<open>console.error\<close>. No statement
  of the module throws, so the result is not a sum.
\<close>

definition requiredVars :: "string list" where
  "requiredVars = [''JWT_SECRET'']"

definition env_lookup :: "EnvVariables \<Rightarrow> string \<Rightarrow> string option" where
  "env_lookup e key = (if key = ''JWT_SECRET'' then Some (JWT_SECRET e) else None)"

definition env_module :: "string option \<Rightarrow> EnvVariables \<times> string list" where
  "env_module VITE_JWT_SECRET =
     (let env = \<lparr>JWT_SECRET = (case VITE_JWT_SECRET of
                                   None \<Rightarrow> []
                                 | Some v \<Rightarrow> if v = [] then [] else v)\<rparr>
      in (env,
          concat (map (\<lambda>key. if falsy (env_lookup env key)
                               then [''Missing required environment variable: '' @ key]
                               else [])
                      requiredVars)))"

section \<open>Token codec (\<open>lib/jwt\<close>)\<close>

text \<open>
  The module's top-level check, run when the module is loaded:
  \<^verbatim>\<open>
  if (!env.JWT_SECRET) { throw new Error('JWT_SECRET environment variable is not set'); }
  \<close>
\<close>

definition jwt_module_init :: "EnvVariables \<Rightarrow> thrown + unit" where
  "jwt_module_init env =
     (if falsy (Some (JWT_SECRET env))
      then Inl (Error ''JWT_SECRET environment variable is not set'')
      else Inr ())"

text \<open>
  The payload interface \<open>JWTPayload\<close>: the application's claims \<open>userId\<close>, \<open>role\<close>,
  \<open>sessionId\<close> and the registered claims the codec writes and checks. A decoded token
  is cast to the interface without a check, so every claim may be absent, \<open>userId\<close>
  included.
\<close>

record JWTPayload =
  userId :: "string option"
  role :: "string option"
  sessionId :: "string option"
  iss :: "string option"
  aud :: "string list option"
  iat :: "nat option"
  exp :: "nat option"
  nbf :: "nat option"

datatype algorithm = HS256 | OtherAlgorithm string

datatype tokenType = access | refresh

text \<open>Time spans as \<open>TOKEN_CONFIG\<close> writes them: \<open>'15m'\<close> and \<open>'7d'\<close>.\<close>

datatype timespan = Minutes nat | Days nat

fun seconds :: "timespan \<Rightarrow> nat" where
  "seconds (Minutes n) = n * 60"
| "seconds (Days n) = n * 86400"

record SignOptions =
  expiresIn :: timespan
  type :: "string option"
  algorithm :: algorithm
  issuer :: string
  audience :: "string list"

record VerifyOptions =
  algorithms :: "algorithm list"
  v_issuer :: string
  v_audience :: "string list"

definition TOKEN_CONFIG :: "tokenType \<Rightarrow> timespan \<times> string" where
  "TOKEN_CONFIG tokenType =
     (case tokenType of
        access \<Rightarrow> (Minutes 15, ''access'')
      | refresh \<Rightarrow> (Days 7, ''refresh''))"

text \<open>
  The signature of a token is the HMAC-SHA256 of its header and payload under a key. It
  is modelled symbolically, as a free constructor: two signatures are equal only if key,
  algorithm and payload are. A token string is represented by what it decodes to: a
  header algorithm, a payload and a signature, or nothing when the string is not a
  well-formed token.
\<close>

datatype signature = HMAC_SHA256 string algorithm "JWTPayload"

datatype token = Malformed | Jwt algorithm "JWTPayload" signature

text \<open>
  Modelled from the spec: \<open>sign\<close> of the external package \<open>jsonwebtoken\<close>, which is not
  part of the repository sources. It signs the payload with HMAC-SHA256 under the
  secret, adding the issue time, the expiry (issue time plus the configured span) and
  the issuer and audience constants. The spec is silent on what the package refuses; its
  checks before signing are taken from the package: the secret must have a value, the
  payload must not already carry \<open>exp\<close> when \<open>expiresIn\<close> is given, the options may
  hold only the keys the package knows (\<open>type\<close> is not one of them), and the payload
  must not already carry \<open>aud\<close> or \<open>iss\<close> when the option is given. The issue time is
  the payload's \<open>iat\<close> when it has one. The fourth argument is the clock, in seconds.
\<close>

definition sign :: "JWTPayload \<Rightarrow> string \<Rightarrow> SignOptions \<Rightarrow> nat \<Rightarrow> thrown + token" where
  \<open>sign payload secret options now =
     (if secret = [] then Inl (Error ''secretOrPrivateKey must have a value'')
      else if exp payload \<noteq> None
        then Inl (Error ''Bad "options.expiresIn" option the payload already has an "exp" property.'')
      else if type options \<noteq> None
        then Inl (Error ''"type" is not allowed in "options"'')
      else if aud payload \<noteq> None
        then Inl (Error ''Bad "options.audience" option. The payload already has an "aud" property.'')
      else if iss payload \<noteq> None
        then Inl (Error ''Bad "options.issuer" option. The payload already has an "iss" property.'')
      else
        (let timestamp = (case iat payload of None \<Rightarrow> now | Some t \<Rightarrow> if t = 0 then now else t);
             claims = payload\<lparr>iss := Some (issuer options),
                               aud := Some (audience options),
                               iat := Some timestamp,
                               exp := Some (timestamp + seconds (expiresIn options))\<rparr>
         in Inr (Jwt (algorithm options) claims
                   (HMAC_SHA256 secret (algorithm options) claims))))\<close>

text \<open>
  Modelled from the spec: \<open>verify\<close> of the external package \<open>jsonwebtoken\<close>, which is
  not part of the repository sources. A token verifies only if its signature matches the
  signing key, it is not expired, and its issuer and audience match the expected values;
  on success the decoded payload is returned. What matching means is the package's rule:
  the issuer must equal the expected one, and the audience matches when at least one of
  the token's audience values is one of the expected values (an absent audience matches
  nothing). The package also refuses a token whose \<open>nbf\<close> lies in the future. Each
  failure raises an \<open>Error\<close> of its own.
\<close>

fun audience_matches :: "string list option \<Rightarrow> string list \<Rightarrow> bool" where
  "audience_matches None expected = False"
| "audience_matches (Some a) expected = list_ex (\<lambda>v. v \<in> set expected) a"

definition verify :: "token \<Rightarrow> string \<Rightarrow> VerifyOptions \<Rightarrow> nat \<Rightarrow> thrown + JWTPayload" where
  "verify tok secret options now =
     (case tok of
        Malformed \<Rightarrow> Inl (Error ''jwt malformed'')
      | Jwt alg claims sig \<Rightarrow>
          if alg \<notin> set (algorithms options) then Inl (Error ''invalid algorithm'')
          else if sig \<noteq> HMAC_SHA256 secret alg claims then Inl (Error ''invalid signature'')
          else if (case nbf claims of None \<Rightarrow> False | Some t \<Rightarrow> now < t)
            then Inl (Error ''jwt not active'')
          else if (case exp claims of None \<Rightarrow> False | Some t \<Rightarrow> t \<le> now)
            then Inl (Error ''jwt expired'')
          else if \<not> audience_matches (aud claims) (v_audience options)
            then Inl (Error ''jwt audience invalid'')
          else if iss claims \<noteq> Some (v_issuer options) then Inl (Error ''jwt issuer invalid'')
          else Inr claims)"

text \<open>
  \<^verbatim>\<open>
  const options = { ...TOKEN_CONFIG[tokenType], algorithm: 'HS256',
                    issuer: 'policy-sonar', audience: ['web', 'mobile'] };
  return sign(payload, env.JWT_SECRET, options);
  \<close>
  The spread copies both keys of the \<open>TOKEN_CONFIG\<close> entry, \<open>expiresIn\<close> and
  \<open>type\<close>, into the options handed to \<open>sign\<close>.
\<close>

definition createToken ::
  "EnvVariables \<Rightarrow> nat \<Rightarrow> JWTPayload \<Rightarrow> tokenType \<Rightarrow> thrown + token" where
  "createToken env now payload tokenType =
     (let options = \<lparr>expiresIn = fst (TOKEN_CONFIG tokenType),
                     type = Some (snd (TOKEN_CONFIG tokenType)),
                     algorithm = HS256,
                     issuer = ''policy-sonar'',
                     audience = [''web'', ''mobile'']\<rparr>
      in sign payload (JWT_SECRET env) options now)"

text \<open>
  \<^verbatim>\<open>
  try {
    const decoded = verify(token, env.JWT_SECRET, { algorithms: ['HS256'],
                      issuer: 'policy-sonar', audience: ['web', 'mobile'] });
    if (!decoded.userId) { throw new Error('Invalid token payload'); }
    return decoded;
  } catch (error) { throw new Error('Invalid or expired token'); }
  \<close>
  The inner \<open>case\<close> is the body of the \<open>try\<close>, the outer one the \<open>catch\<close>.
\<close>

definition verifyToken :: "EnvVariables \<Rightarrow> nat \<Rightarrow> token \<Rightarrow> thrown + JWTPayload" where
  "verifyToken env now tok =
     (case (case verify tok (JWT_SECRET env)
                   \<lparr>algorithms = [HS256], v_issuer = ''policy-sonar'',
                    v_audience = [''web'', ''mobile'']\<rparr> now of
              Inl e \<Rightarrow> Inl e
            | Inr decoded \<Rightarrow>
                if falsy (userId decoded) then Inl (Error ''Invalid token payload'')
                else Inr decoded) of
        Inl error \<Rightarrow> Inl (Error ''Invalid or expired token'')
      | Inr decoded \<Rightarrow> Inr decoded)"

section \<open>Profile store\<close>

text \<open>
  A row of the \<open>profiles\<close> table as both the loader and the client read it; the
  columns other than \<open>id\<close> and \<open>username\<close> may be null.
\<close>

record Profile =
  profile_id :: string
  username :: string
  full_name :: "string option"
  avatar_url :: "string option"
  roles :: "string list option"

text \<open>
  The store is an external service. The operations a client can send to it are reads
  (\<open>from(table).select(columns).eq(column, value).single()\<close>) and writes; the answer
  to a read is the pair \<open>{data, error}\<close>, unless the call itself throws. The error
  object of an answer is truthy whatever its message.
\<close>

datatype store_op =
    Select string string string "string option"
  | Insert string
  | Update string
  | Delete string

fun is_write :: "store_op \<Rightarrow> bool" where
  "is_write (Select table columns column v) = False"
| "is_write (Insert table) = True"
| "is_write (Update table) = True"
| "is_write (Delete table) = True"

datatype PostgrestError = PostgrestError string

record QueryResult =
  data :: "Profile option"
  error :: "PostgrestError option"

section \<open>Auth loader (\<open>loader\<close>)\<close>

record Request =
  Authorization :: "string option"

record UserView =
  view_id :: "string option"
  view_email :: string
  view_username :: string
  view_name :: "string option"
  view_avatar :: "string option"
  view_roles :: "string list"

datatype body =
    ErrorBody string "string option"
  | AuthBody UserView "string option"

record Response =
  status :: nat
  body :: body

text \<open>
  What the loader works with: the exported environment object, the clock (seconds), the
  decoding of a token string into its parts (done inside \<open>verify\<close> by the external
  package) and the store client.
\<close>

record Server =
  server_env :: EnvVariables
  clock :: nat
  decode_token :: "string \<Rightarrow> token"
  supabase :: "store_op \<Rightarrow> thrown + QueryResult"

text \<open>
  The result of one run of the loader: the response, what was written to
  \<open>console.error\<close>, and the operations sent to the store.
\<close>

record LoaderResult =
  response :: Response
  console_error :: "thrown list"
  store_ops :: "store_op list"

text \<open>\<open>json(data, {status})\<close>; the status is 200 when it is not given.\<close>

definition json :: "body \<Rightarrow> nat option \<Rightarrow> Response" where
  "json b init = \<lparr>status = (case init of None \<Rightarrow> 200 | Some st \<Rightarrow> st), body = b\<rparr>"

text \<open>
  The handler of the loader's outer \<open>try\<close>:
  \<^verbatim>\<open>
  catch (error) {
    console.error('Auth loader error:', error);
    return json({ error: 'Authentication failed',
                  details: error instanceof Error ? error.message : 'Unknown error' },
                { status: 401 });
  }
  \<close>
\<close>

definition loader_catch :: "thrown \<Rightarrow> store_op list \<Rightarrow> LoaderResult" where
  "loader_catch e ops =
     \<lparr>response = json (ErrorBody ''Authentication failed''
                         (Some (case e of Error message \<Rightarrow> message
                                | NonError \<Rightarrow> ''Unknown error'')))
                      (Some 401),
      console_error = [e],
      store_ops = ops\<rparr>"

text \<open>
  \<^verbatim>\<open>
  const authHeader = request.headers.get('Authorization');
  const token = extractTokenFromHeader(authHeader);
  if (!token) return json({ error: 'Authorization token required' }, { status: 401 });
  const payload = verifyToken(token) as AuthPayload;
  const { data: profile, error } = await supabase.from('profiles')
    .select('id, username, full_name, avatar_url, roles').eq('id', payload.userId).single();
  if (error || !profile) return json({ error: 'User profile not found' }, { status: 404 });
  return json({ user: { id: payload.userId, email: profile.username + '@example.com',
                        username: profile.username, name: profile.full_name,
                        avatar: profile.avatar_url, roles: profile.roles || [] },
                session: payload.sessionId });
  \<close>
  The test \<open>error || !profile\<close> sends every answer other than a row without an error
  to the 404 response.
\<close>

definition loader :: "Server \<Rightarrow> Request \<Rightarrow> LoaderResult" where
  "loader srv request =
     (let authHeader = Authorization request;
          token = extractTokenFromHeader authHeader
      in if falsy token
         then \<lparr>response = json (ErrorBody ''Authorization token required'' None) (Some 401),
               console_error = [], store_ops = []\<rparr>
         else
           (case verifyToken (server_env srv) (clock srv)
                   (decode_token srv (case token of None \<Rightarrow> [] | Some t \<Rightarrow> t)) of
              Inl e \<Rightarrow> loader_catch e []
            | Inr payload \<Rightarrow>
                (let query = Select ''profiles'' ''id, username, full_name, avatar_url, roles''
                               ''id'' (userId payload)
                 in case supabase srv query of
                      Inl e \<Rightarrow> loader_catch e [query]
                    | Inr result \<Rightarrow>
                        (case (error result, data result) of
                           (None, Some profile) \<Rightarrow>
                             \<lparr>response =
                                json (AuthBody
                                        \<lparr>view_id = userId payload,
                                         view_email = username profile @ ''@example.com'',
                                         view_username = username profile,
                                         view_name = full_name profile,
                                         view_avatar = avatar_url profile,
                                         view_roles = (case roles profile of
                                                         None \<Rightarrow> []
                                                       | Some rs \<Rightarrow> rs)\<rparr>
                                        (sessionId payload))
                                     None,
                              console_error = [], store_ops = [query]\<rparr>
                         | _ \<Rightarrow>
                             \<lparr>response = json (ErrorBody ''User profile not found'' None)
                                                (Some 404),
                              console_error = [], store_ops = [query]\<rparr>))))"

section \<open>Client auth context (\<open>contexts/auth.tsx\<close>)\<close>

text \<open>
  The state of the provider is its three \<open>useState\<close> cells. Each function of the
  context is modelled as one run without interleaving: it takes the state, and returns
  whether it threw, the state after its last update, and the calls it made to the backend.
  The backend is external: each call either throws or returns its answer object, whose
  \<open>error\<close> field holds the error object the backend reports, if any.
\<close>

record User =
  user_id :: string

record AuthState =
  user :: "User option"
  profile :: "Profile option"
  isLoading :: bool

record AuthResponse =
  data_user :: "User option"
  auth_error :: "thrown option"

record SignOutResponse =
  signOut_error :: "thrown option"

datatype backend_call =
    SignInWithPassword string string
  | SignOut
  | Query store_op

record Backend =
  signInWithPassword :: "string \<Rightarrow> string \<Rightarrow> thrown + AuthResponse"
  auth_signOut :: "thrown + SignOutResponse"
  from_table :: "store_op \<Rightarrow> thrown + QueryResult"

text \<open>
  \<^verbatim>\<open>
  const { data, error } = await supabase.from('profiles').select('*').eq('id', userId).single();
  if (!error && data) { setProfile(data); }
  \<close>
  This function is local to the effect callback of the provider.
\<close>

definition fetchProfile ::
  "Backend \<Rightarrow> string \<Rightarrow> AuthState \<Rightarrow> (thrown + unit) \<times> AuthState \<times> backend_call list" where
  "fetchProfile be uid s =
     (let query = Select ''profiles'' ''*'' ''id'' (Some uid)
      in case from_table be query of
           Inl e \<Rightarrow> (Inl e, s, [Query query])
         | Inr result \<Rightarrow>
             (case (error result, data result) of
                (None, Some d) \<Rightarrow> (Inr (), s\<lparr>profile := Some d\<rparr>, [Query query])
              | _ \<Rightarrow> (Inr (), s, [Query query])))"

text \<open>
  \<^verbatim>\<open>
  setIsLoading(true);
  try {
    const { data, error } = await supabase.auth.signInWithPassword({ email, password });
    if (error) throw error;
    if (data.user) { setUser(data.user); await fetchProfile(data.user.id); }
  } finally { setIsLoading(false); }
  \<close>
  The first component of the inner triple is the outcome of the \<open>try\<close> block; the
  \<open>finally\<close> block runs on every path and leaves the outcome as it is. The source
  declares \<open>fetchProfile\<close> inside the effect callback, so the name is not in scope in
  \<open>signIn\<close>: evaluating it there, after \<open>setUser\<close>, throws a \<open>ReferenceError\<close>
  (an \<open>Error\<close>) and no profile query is made.
\<close>

definition signIn ::
  "Backend \<Rightarrow> string \<Rightarrow> string \<Rightarrow> AuthState
     \<Rightarrow> (thrown + unit) \<times> AuthState \<times> backend_call list" where
  "signIn be email password s =
     (let s1 = s\<lparr>isLoading := True\<rparr>;
          call = SignInWithPassword email password;
          (outcome, s2) =
            (case signInWithPassword be email password of
               Inl e \<Rightarrow> (Inl e, s1)
             | Inr res \<Rightarrow>
                 (case auth_error res of
                    Some e \<Rightarrow> (Inl e, s1)
                  | None \<Rightarrow>
                      (case data_user res of
                         None \<Rightarrow> (Inr (), s1)
                       | Some u \<Rightarrow>
                           (Inl (Error ''fetchProfile is not defined''),
                            s1\<lparr>user := Some u\<rparr>))))
      in (outcome, s2\<lparr>isLoading := False\<rparr>, [call]))"

text \<open>
  \<^verbatim>\<open>
  setIsLoading(true);
  try {
    await supabase.auth.signOut();
    setUser(null);
    setProfile(null);
  } finally { setIsLoading(false); }
  \<close>
  The answer of the backend call is not read.
\<close>

definition signOut ::
  "Backend \<Rightarrow> AuthState \<Rightarrow> (thrown + unit) \<times> AuthState \<times> backend_call list" where
  "signOut be s =
     (let s1 = s\<lparr>isLoading := True\<rparr>;
          (outcome, s2) =
            (case auth_signOut be of
               Inl e \<Rightarrow> (Inl e, s1)
             | Inr res \<Rightarrow> (Inr (), s1\<lparr>user := None, profile := None\<rparr>))
      in (outcome, s2\<lparr>isLoading := False\<rparr>, [SignOut]))"

text \<open>
  \<^verbatim>\<open>
  return profile?.roles?.includes(role) ?? false;
  \<close>
\<close>

definition hasRole :: "AuthState \<Rightarrow> string \<Rightarrow> bool" where
  "hasRole s r =
     (case profile s of
        None \<Rightarrow> False
      | Some p \<Rightarrow> (case roles p of None \<Rightarrow> False | Some rs \<Rightarrow> r \<in> set rs))"

section \<open>Properties of the header extractor\<close>

lemma trim_no_leading_ws: "trim s \<noteq> [] \<Longrightarrow> \<not> isWhiteSpace (hd (trim s))"
proof -
  assume ne: "trim s \<noteq> []"
  let ?d = "dropWhile isWhiteSpace s"
  let ?r = "dropWhile isWhiteSpace (rev ?d)"
  have t: "trim s = rev ?r" by (simp add: trim_def)
  from ne t have rne: "?r \<noteq> []" by simp
  then have "rev ?d \<noteq> []" by (metis dropWhile.simps(1))
  then have dne: "?d \<noteq> []" by simp
  obtain ws where ws: "rev ?d = ws @ ?r"
    by (metis takeWhile_dropWhile_id)
  then have "?d = rev ?r @ rev ws" by (metis rev_append rev_rev_ident)
  with rne have "hd ?d = hd (rev ?r)" by (metis hd_append2 rev_is_Nil_conv)
  moreover from dne have "\<not> isWhiteSpace (hd ?d)" by (rule hd_dropWhile)
  ultimately show ?thesis using t by simp
qed

lemma trim_no_trailing_ws: "trim s \<noteq> [] \<Longrightarrow> \<not> isWhiteSpace (last (trim s))"
proof -
  assume ne: "trim s \<noteq> []"
  let ?r = "dropWhile isWhiteSpace (rev (dropWhile isWhiteSpace s))"
  from ne have rne: "?r \<noteq> []" by (simp add: trim_def)
  then have "\<not> isWhiteSpace (hd ?r)" by (rule hd_dropWhile)
  moreover from rne have "last (rev ?r) = hd ?r" by (simp add: last_rev)
  ultimately show ?thesis by (simp add: trim_def)
qed

lemma extract_Some_iff:
  "extractTokenFromHeader hdr = Some t \<longleftrightarrow>
     (\<exists>h. hdr = Some h \<and> startsWith h ''Bearer '' \<and> t = trim (substring h 7) \<and> t \<noteq> [])"
  by (auto simp: extractTokenFromHeader_def Let_def split: option.splits)

lemma extract_Some_nonempty: "extractTokenFromHeader hdr = Some t \<Longrightarrow> t \<noteq> []"
  by (auto simp: extract_Some_iff)

lemma trim_Nil: "trim [] = []"
  by (simp add: trim_def)

lemma no_pattern_no_token:
  assumes "list_all (\<lambda>c. \<not> isLineTerminator c) h" and "\<not> matches_bearer_pattern h"
  shows "extractTokenFromHeader (Some h) = None"
proof (cases "startsWith h ''Bearer ''")
  case False
  then show ?thesis by (simp add: extractTokenFromHeader_def)
next
  case True
  moreover have "length ''Bearer '' = 7" by simp
  ultimately have p: "take 7 h = ''Bearer ''" unfolding startsWith_def by metis
  from assms(1) have "list_all (\<lambda>c. \<not> isLineTerminator c) (drop 7 h)"
    by (auto simp: list_all_iff dest: in_set_dropD)
  with assms(2) p have "drop 7 h = []" by (simp add: matches_bearer_pattern_def)
  then show ?thesis
    by (simp add: extractTokenFromHeader_def substring_def trim_Nil)
qed

text \<open>
  C6 (as amended). The extractor returns a token exactly when the header is present,
  starts with the case-sensitive prefix \<open>Bearer\<close> followed by one space, and what
  follows the prefix is non-empty once trimmed; the token is that trimmed remainder, and
  it neither starts nor ends with white space. Every other header gives absent: the
  absent header, the empty header, a header with another scheme, and every header that
  holds no line terminator and does not match \<open>^Bearer .+$\<close>. The function is pure.
\<close>

theorem extractTokenFromHeader_contract:
  "(extractTokenFromHeader hdr = Some t \<longleftrightarrow>
      (\<exists>h. hdr = Some h \<and> startsWith h ''Bearer '' \<and> t = trim (substring h 7) \<and> t \<noteq> []))
   \<and> (extractTokenFromHeader hdr = Some t \<longrightarrow>
        \<not> isWhiteSpace (hd t) \<and> \<not> isWhiteSpace (last t))
   \<and> (extractTokenFromHeader hdr = None \<longleftrightarrow>
        \<not> (\<exists>h. hdr = Some h \<and> startsWith h ''Bearer '' \<and> trim (substring h 7) \<noteq> []))
   \<and> extractTokenFromHeader None = None
   \<and> extractTokenFromHeader (Some []) = None
   \<and> (\<not> startsWith h' ''Bearer '' \<longrightarrow> extractTokenFromHeader (Some h') = None)
   \<and> (list_all (\<lambda>c. \<not> isLineTerminator c) h' \<and> \<not> matches_bearer_pattern h'
        \<longrightarrow> extractTokenFromHeader (Some h') = None)"
proof (intro conjI impI)
  show "extractTokenFromHeader hdr = Some t \<longleftrightarrow>
      (\<exists>h. hdr = Some h \<and> startsWith h ''Bearer '' \<and> t = trim (substring h 7) \<and> t \<noteq> [])"
    by (rule extract_Some_iff)
next
  assume a: "extractTokenFromHeader hdr = Some t"
  then obtain h where t: "t = trim (substring h 7)" and ne: "t \<noteq> []"
    by (auto simp: extract_Some_iff)
  from t ne show "\<not> isWhiteSpace (hd t)" using trim_no_leading_ws [of "substring h 7"] by simp
next
  assume a: "extractTokenFromHeader hdr = Some t"
  then obtain h where t: "t = trim (substring h 7)" and ne: "t \<noteq> []"
    by (auto simp: extract_Some_iff)
  from t ne show "\<not> isWhiteSpace (last t)" using trim_no_trailing_ws [of "substring h 7"] by simp
next
  show "extractTokenFromHeader hdr = None \<longleftrightarrow>
        \<not> (\<exists>h. hdr = Some h \<and> startsWith h ''Bearer '' \<and> trim (substring h 7) \<noteq> [])"
    by (auto simp: extractTokenFromHeader_def Let_def split: option.splits)
next
  show "extractTokenFromHeader None = None"
    by (simp add: extractTokenFromHeader_def)
next
  show "extractTokenFromHeader (Some []) = None"
    by (simp add: extractTokenFromHeader_def startsWith_def)
next
  assume "\<not> startsWith h' ''Bearer ''"
  then show "extractTokenFromHeader (Some h') = None"
    by (simp add: extractTokenFromHeader_def)
next
  assume "list_all (\<lambda>c. \<not> isLineTerminator c) h' \<and> \<not> matches_bearer_pattern h'"
  then show "extractTokenFromHeader (Some h') = None"
    by (simp add: no_pattern_no_token)
qed

theorem extractTokenFromHeader_contract_witness:
  "extractTokenFromHeader (Some ''Bearer  abc.def.ghi '') = Some ''abc.def.ghi''
   \<and> startsWith ''Bearer  abc.def.ghi '' ''Bearer ''
   \<and> \<not> startsWith ''Basic dXNlcg=='' ''Bearer ''
   \<and> list_all (\<lambda>c. \<not> isLineTerminator c) ''Basic dXNlcg==''
   \<and> \<not> matches_bearer_pattern ''Basic dXNlcg==''
   \<and> extractTokenFromHeader (Some ''Basic dXNlcg=='') = None"
  using extractTokenFromHeader_contract
    [of "Some ''Bearer  abc.def.ghi ''" "''abc.def.ghi''" "''Basic dXNlcg==''"]
  by (simp add: extractTokenFromHeader_def startsWith_def substring_def trim_def
      isWhiteSpace_def isLineTerminator_def matches_bearer_pattern_def)

text \<open>
  C6 as stated fails on a header with a line terminator after the prefix: the header
  below does not match \<open>^Bearer .+$\<close> (the atom \<open>.\<close> refuses the line feed), yet the
  extractor trims the line feed away and returns the token.
\<close>

theorem extractTokenFromHeader_pattern_counterexample:
  "\<not> matches_bearer_pattern (''Bearer '' @ [CHR 0x0A] @ ''abc'')
   \<and> extractTokenFromHeader (Some (''Bearer '' @ [CHR 0x0A] @ ''abc'')) = Some ''abc''"
  by (simp add: extractTokenFromHeader_def startsWith_def substring_def trim_def
      isWhiteSpace_def isLineTerminator_def matches_bearer_pattern_def)

section \<open>Properties of the environment module and of module initialisation\<close>

text \<open>
  C7 (as amended). When the signing-secret configuration value is absent (or empty), the
  environment module logs one error line and still exports its object, with the empty
  string as secret; it does not throw. The token module, loaded on that object, does
  hard-fail: its initialisation throws
  \<open>Error('JWT_SECRET environment variable is not set')\<close>.
\<close>

theorem absent_secret_logged_then_jwt_module_throws:
  "falsy v \<longrightarrow>
     env_module v =
       (\<lparr>JWT_SECRET = []\<rparr>, [''Missing required environment variable: JWT_SECRET''])
     \<and> jwt_module_init (fst (env_module v)) =
         Inl (Error ''JWT_SECRET environment variable is not set'')"
  by (auto simp: falsy_def env_module_def env_lookup_def requiredVars_def
      jwt_module_init_def Let_def split: option.splits)

theorem absent_secret_logged_then_jwt_module_throws_witness:
  "falsy None
   \<and> env_module None =
       (\<lparr>JWT_SECRET = []\<rparr>, [''Missing required environment variable: JWT_SECRET''])
   \<and> jwt_module_init (fst (env_module None)) =
       Inl (Error ''JWT_SECRET environment variable is not set'')"
  using absent_secret_logged_then_jwt_module_throws [of None]
  by (auto simp: falsy_def)

text \<open>
  C7 as stated fails: with the configuration value absent, initialisation of the token
  module throws.
\<close>

theorem jwt_module_init_absent_secret_counterexample:
  "jwt_module_init (fst (env_module None)) =
     Inl (Error ''JWT_SECRET environment variable is not set'')"
  by (simp add: falsy_def env_module_def env_lookup_def requiredVars_def
      jwt_module_init_def)

section \<open>Properties of the token codec\<close>

lemma sign_without_type_verifies:
  assumes "JWT_SECRET e \<noteq> []" and "type options = None" and "algorithm options = HS256"
    and "issuer options = ''policy-sonar''" and "audience options = [''web'', ''mobile'']"
    and "exp payload = None" and "aud payload = None" and "iss payload = None"
    and "iat payload = None" and "nbf payload = None"
    and "userId payload = Some u" and "u \<noteq> []"
    and "now' < now + seconds (expiresIn options)"
  shows "\<exists>tok. sign payload (JWT_SECRET e) options now = Inr tok
           \<and> verifyToken e now' tok =
               Inr (payload\<lparr>iss := Some ''policy-sonar'', aud := Some [''web'', ''mobile''],
                            iat := Some now,
                            exp := Some (now + seconds (expiresIn options))\<rparr>)"
  using assms by (simp add: sign_def verifyToken_def verify_def falsy_def Let_def)

text \<open>
  C1. The claim describes what \<open>createToken\<close> is written to do, and the code misses it:
  \<open>createToken\<close> never produces a token. It hands the \<open>type\<close> key of its
  \<open>TOKEN_CONFIG\<close> entry to \<open>sign\<close> among the options, and \<open>sign\<close> refuses it, so
  \<open>createToken\<close> throws for every payload and either token kind, and there is no
  token for \<open>verifyToken\<close> to return the claims of. With a configured secret and a
  payload without \<open>exp\<close> the value thrown is
  \<open>Error('"type" is not allowed in "options"')\<close>.
\<close>

theorem createToken_always_throws:
  \<open>(\<exists>x. createToken e now payload tokenType = Inl x)
   \<and> (JWT_SECRET e \<noteq> [] \<and> exp payload = None \<longrightarrow>
        createToken e now payload tokenType =
          Inl (Error ''"type" is not allowed in "options"''))\<close>
  by (simp add: createToken_def sign_def Let_def)

theorem createToken_always_throws_witness:
  \<open>createToken \<lparr>JWT_SECRET = ''s3cret''\<rparr> 1000
     \<lparr>userId = Some ''u1'', role = Some ''analyst'', sessionId = Some ''s1'',
      iss = None, aud = None, iat = None, exp = None, nbf = None\<rparr> access =
   Inl (Error ''"type" is not allowed in "options"'')\<close>
  using createToken_always_throws
    [of "\<lparr>JWT_SECRET = ''s3cret''\<rparr>" 1000
        "\<lparr>userId = Some ''u1'', role = Some ''analyst'', sessionId = Some ''s1'',
          iss = None, aud = None, iat = None, exp = None, nbf = None\<rparr>" access]
  by simp

lemma verifyToken_error_kind:
  "verifyToken e now tok = Inl x \<Longrightarrow> x = Error ''Invalid or expired token''"
  by (auto simp: verifyToken_def split: sum.splits if_splits)

lemma verifyToken_rejects:
  assumes "(sig = HMAC_SHA256 key alg' claims' \<and> key \<noteq> JWT_SECRET e)
           \<or> (\<exists>t. exp claims = Some t \<and> t \<le> now)
           \<or> iss claims \<noteq> Some ''policy-sonar''
           \<or> aud claims = None
           \<or> (\<exists>a. aud claims = Some a \<and> set a \<inter> set [''web'', ''mobile''] = {})
           \<or> userId claims = None"
  shows "verifyToken e now (Jwt alg claims sig) = Inl (Error ''Invalid or expired token'')"
proof (cases "verify (Jwt alg claims sig) (JWT_SECRET e)
                \<lparr>algorithms = [HS256], v_issuer = ''policy-sonar'',
                 v_audience = [''web'', ''mobile'']\<rparr> now")
  case (Inl x)
  then show ?thesis by (simp add: verifyToken_def)
next
  case (Inr decoded)
  then have ok: "sig = HMAC_SHA256 (JWT_SECRET e) alg claims"
      "\<not> (case exp claims of None \<Rightarrow> False | Some t \<Rightarrow> t \<le> now)"
      "iss claims = Some ''policy-sonar''"
      "audience_matches (aud claims) [''web'', ''mobile'']"
      "decoded = claims"
    by (auto simp: verify_def split: if_splits)
  from ok(4) obtain a where a: "aud claims = Some a"
      and "list_ex (\<lambda>v. v \<in> set [''web'', ''mobile'']) a"
    by (cases "aud claims") auto
  then have "set a \<inter> set [''web'', ''mobile''] \<noteq> {}"
    by (auto simp: list_ex_iff)
  with assms ok(1-3) a have "userId claims = None" by auto
  with Inr ok(5) show ?thesis by (simp add: verifyToken_def falsy_def)
qed

text \<open>
  C2 (as amended). A token that is signed under a secret other than the configured one,
  or is expired, or whose issuer differs from the fixed constant, or whose audience is
  absent or has no value in common with the fixed constants \<open>web\<close> and \<open>mobile\<close>, or
  whose payload lacks \<open>userId\<close>, does not verify; and every failure of
  \<open>verifyToken\<close>, whatever caused it, raises the same value,
  \<open>Error('Invalid or expired token')\<close>, so that the caller cannot tell the reasons apart.
\<close>

theorem verifyToken_fails_with_single_error:
  "(((sig = HMAC_SHA256 key alg' claims' \<and> key \<noteq> JWT_SECRET e)
       \<or> (\<exists>t. exp claims = Some t \<and> t \<le> now)
       \<or> iss claims \<noteq> Some ''policy-sonar''
       \<or> aud claims = None
       \<or> (\<exists>a. aud claims = Some a \<and> set a \<inter> set [''web'', ''mobile''] = {})
       \<or> userId claims = None)
      \<longrightarrow> verifyToken e now (Jwt alg claims sig) = Inl (Error ''Invalid or expired token''))
   \<and> (\<forall>x. verifyToken e now tok = Inl x \<longrightarrow> x = Error ''Invalid or expired token'')"
  using verifyToken_rejects [of sig key alg' claims' e claims now alg]
    verifyToken_error_kind [of e now tok]
  by blast

theorem verifyToken_fails_with_single_error_witness:
  "''other'' \<noteq> JWT_SECRET \<lparr>JWT_SECRET = ''s3cret''\<rparr>
   \<and> verifyToken \<lparr>JWT_SECRET = ''s3cret''\<rparr> 1000
        (Jwt HS256
           \<lparr>userId = Some ''u1'', role = None, sessionId = None, iss = Some ''policy-sonar'',
            aud = Some [''web'', ''mobile''], iat = Some 900, exp = Some 1800, nbf = None\<rparr>
           (HMAC_SHA256 ''other'' HS256
              \<lparr>userId = Some ''u1'', role = None, sessionId = None,
               iss = Some ''policy-sonar'', aud = Some [''web'', ''mobile''],
               iat = Some 900, exp = Some 1800, nbf = None\<rparr>)) =
      Inl (Error ''Invalid or expired token'')
   \<and> verifyToken \<lparr>JWT_SECRET = ''s3cret''\<rparr> 1000
        (Jwt HS256
           \<lparr>userId = Some ''u1'', role = None, sessionId = None, iss = Some ''policy-sonar'',
            aud = Some [''admin''], iat = Some 900, exp = Some 1800, nbf = None\<rparr>
           (HMAC_SHA256 ''s3cret'' HS256
              \<lparr>userId = Some ''u1'', role = None, sessionId = None,
               iss = Some ''policy-sonar'', aud = Some [''admin''],
               iat = Some 900, exp = Some 1800, nbf = None\<rparr>)) =
      Inl (Error ''Invalid or expired token'')
   \<and> verifyToken \<lparr>JWT_SECRET = ''s3cret''\<rparr> 1000 Malformed =
      Inl (Error ''Invalid or expired token'')"
proof -
  let ?c = "\<lparr>userId = Some ''u1'', role = None, sessionId = None, iss = Some ''policy-sonar'',
             aud = Some [''web'', ''mobile''], iat = Some 900, exp = Some (1800::nat),
             nbf = None\<rparr>"
  let ?a = "\<lparr>userId = Some ''u1'', role = None, sessionId = None, iss = Some ''policy-sonar'',
             aud = Some [''admin''], iat = Some 900, exp = Some (1800::nat), nbf = None\<rparr>"
  let ?e = "\<lparr>JWT_SECRET = ''s3cret''\<rparr>"
  have k: "''other'' \<noteq> JWT_SECRET ?e" by simp
  have d: "\<exists>a. aud ?a = Some a \<and> set a \<inter> set [''web'', ''mobile''] = {}" by simp
  have m: "verifyToken ?e 1000 Malformed = Inl (Error ''Invalid or expired token'')"
    by (simp add: verifyToken_def verify_def)
  have w1: "verifyToken ?e 1000 (Jwt HS256 ?c (HMAC_SHA256 ''other'' HS256 ?c)) =
              Inl (Error ''Invalid or expired token'')"
    using k verifyToken_fails_with_single_error
      [of "HMAC_SHA256 ''other'' HS256 ?c" "''other''" HS256 ?c ?e ?c 1000 HS256 Malformed]
    by blast
  have w2: "verifyToken ?e 1000 (Jwt HS256 ?a (HMAC_SHA256 ''s3cret'' HS256 ?a)) =
              Inl (Error ''Invalid or expired token'')"
    using d verifyToken_fails_with_single_error
      [of "HMAC_SHA256 ''s3cret'' HS256 ?a" "''s3cret''" HS256 ?a ?e ?a 1000 HS256 Malformed]
    by blast
  from k m w1 w2 show ?thesis by blast
qed

text \<open>
  C2 as stated fails on the audience: a token signed under the configured secret, not
  expired, with the right issuer and a \<open>userId\<close>, whose audience is \<open>['web']\<close> and so
  differs from the fixed \<open>['web', 'mobile']\<close>, verifies, because one of its audience
  values is an expected one.
\<close>

theorem verifyToken_audience_subset_counterexample:
  "verifyToken \<lparr>JWT_SECRET = ''s3cret''\<rparr> 1000
     (Jwt HS256
        \<lparr>userId = Some ''u1'', role = None, sessionId = None, iss = Some ''policy-sonar'',
         aud = Some [''web''], iat = Some 900, exp = Some 1800, nbf = None\<rparr>
        (HMAC_SHA256 ''s3cret'' HS256
           \<lparr>userId = Some ''u1'', role = None, sessionId = None,
            iss = Some ''policy-sonar'', aud = Some [''web''],
            iat = Some 900, exp = Some 1800, nbf = None\<rparr>)) =
   Inr \<lparr>userId = Some ''u1'', role = None, sessionId = None, iss = Some ''policy-sonar'',
        aud = Some [''web''], iat = Some 900, exp = Some 1800, nbf = None\<rparr>"
  by (simp add: verifyToken_def verify_def falsy_def)

section \<open>Properties of the auth loader\<close>

lemma loader_token:
  assumes "extractTokenFromHeader (Authorization request) = Some tok"
  shows "loader srv request =
           (case verifyToken (server_env srv) (clock srv) (decode_token srv tok) of
              Inl e \<Rightarrow> loader_catch e []
            | Inr payload \<Rightarrow>
                (let query = Select ''profiles'' ''id, username, full_name, avatar_url, roles''
                               ''id'' (userId payload)
                 in case supabase srv query of
                      Inl e \<Rightarrow> loader_catch e [query]
                    | Inr result \<Rightarrow>
                        (case (error result, data result) of
                           (None, Some row) \<Rightarrow>
                             \<lparr>response =
                                json (AuthBody
                                        \<lparr>view_id = userId payload,
                                         view_email = username row @ ''@example.com'',
                                         view_username = username row,
                                         view_name = full_name row,
                                         view_avatar = avatar_url row,
                                         view_roles = (case roles row of
                                                         None \<Rightarrow> []
                                                       | Some rs \<Rightarrow> rs)\<rparr>
                                        (sessionId payload))
                                     None,
                              console_error = [], store_ops = [query]\<rparr>
                         | _ \<Rightarrow>
                             \<lparr>response = json (ErrorBody ''User profile not found'' None)
                                                (Some 404),
                              console_error = [], store_ops = [query]\<rparr>)))"
proof -
  from assms have "tok \<noteq> []" by (rule extract_Some_nonempty)
  with assms show ?thesis by (simp add: loader_def falsy_def)
qed

text \<open>
  C3. When the bearer token of the request verifies to a payload with \<open>userId\<close> \<open>u\<close>
  and the store answers the lookup for \<open>u\<close> with a row and no error, the loader
  returns status 200 with the user view built from the row (id \<open>u\<close>, email the
  username followed by \<open>@example.com\<close>, username, name, avatar, and the roles with null
  read as the empty list) and the payload's \<open>sessionId\<close> as session.
\<close>

theorem loader_success:
  assumes "extractTokenFromHeader (Authorization request) = Some tok"
    and "verifyToken (server_env srv) (clock srv) (decode_token srv tok) = Inr payload"
    and "userId payload = Some u"
    and "supabase srv (Select ''profiles'' ''id, username, full_name, avatar_url, roles''
                         ''id'' (Some u)) = Inr \<lparr>data = Some row, error = None\<rparr>"
  shows "response (loader srv request) =
           \<lparr>status = 200,
            body = AuthBody
                     \<lparr>view_id = Some u,
                      view_email = username row @ ''@example.com'',
                      view_username = username row,
                      view_name = full_name row,
                      view_avatar = avatar_url row,
                      view_roles = (case roles row of None \<Rightarrow> [] | Some rs \<Rightarrow> rs)\<rparr>
                     (sessionId payload)\<rparr>"
  using assms(2-4) by (simp add: loader_token [OF assms(1)] json_def)

lemmas header_defs =
  extractTokenFromHeader_def startsWith_def substring_def trim_def isWhiteSpace_def

lemmas codec_defs =
  verifyToken_def verify_def falsy_def

theorem loader_success_witness:
  "response
     (loader
        \<lparr>server_env = \<lparr>JWT_SECRET = ''s3cret''\<rparr>, clock = 1000,
         decode_token =
           (\<lambda>s. Jwt HS256
                  \<lparr>userId = Some ''u1'', role = None, sessionId = Some ''s1'',
                   iss = Some ''policy-sonar'', aud = Some [''web'', ''mobile''],
                   iat = Some 900, exp = Some 1800, nbf = None\<rparr>
                  (HMAC_SHA256 ''s3cret'' HS256
                     \<lparr>userId = Some ''u1'', role = None, sessionId = Some ''s1'',
                      iss = Some ''policy-sonar'', aud = Some [''web'', ''mobile''],
                      iat = Some 900, exp = Some 1800, nbf = None\<rparr>)),
         supabase = (\<lambda>q. Inr \<lparr>data = Some \<lparr>profile_id = ''u1'', username = ''alice'',
                                               full_name = None, avatar_url = None,
                                               roles = None\<rparr>,
                                  error = None\<rparr>)\<rparr>
        \<lparr>Authorization = Some ''Bearer abc.def.ghi''\<rparr>) =
   \<lparr>status = 200,
    body = AuthBody
             \<lparr>view_id = Some ''u1'', view_email = ''alice@example.com'',
              view_username = ''alice'', view_name = None, view_avatar = None,
              view_roles = []\<rparr>
             (Some ''s1'')\<rparr>"
proof -
  let ?d = "\<lparr>userId = Some ''u1'', role = None, sessionId = Some ''s1'',
             iss = Some ''policy-sonar'', aud = Some [''web'', ''mobile''],
             iat = Some 900, exp = Some (1800::nat), nbf = None\<rparr>"
  let ?row = "\<lparr>profile_id = ''u1'', username = ''alice'', full_name = None,
               avatar_url = None, roles = None\<rparr>"
  let ?srv = "\<lparr>server_env = \<lparr>JWT_SECRET = ''s3cret''\<rparr>, clock = 1000,
               decode_token = (\<lambda>s. Jwt HS256 ?d (HMAC_SHA256 ''s3cret'' HS256 ?d)),
               supabase = (\<lambda>q. Inr \<lparr>data = Some ?row, error = None\<rparr>)\<rparr>"
  let ?req = "\<lparr>Authorization = Some ''Bearer abc.def.ghi''\<rparr>"
  have h1: "extractTokenFromHeader (Authorization ?req) = Some ''abc.def.ghi''"
    by (simp add: header_defs)
  have h2: "verifyToken (server_env ?srv) (clock ?srv) (decode_token ?srv ''abc.def.ghi'') =
              Inr ?d"
    by (simp add: codec_defs)
  have h3: "userId ?d = Some ''u1''" by simp
  have h4: "supabase ?srv (Select ''profiles'' ''id, username, full_name, avatar_url, roles''
                             ''id'' (Some ''u1'')) = Inr \<lparr>data = Some ?row, error = None\<rparr>"
    by simp
  show ?thesis using loader_success [OF h1 h2 h3 h4] by simp
qed

text \<open>
  C4 (as amended). When the request carries a bearer token and a later step of the flow
  throws (token verification, or the store lookup), the loader catches the thrown value,
  logs it, and returns status 401 with error \<open>Authentication failed\<close>; the details are
  the message of the thrown value when it is an \<open>Error\<close>, and \<open>Unknown error\<close>
  when it is not. A failed verification is always reported with the details
  \<open>Invalid or expired token\<close>. Unexpected errors get the same response as auth errors.
\<close>

theorem loader_exception_401:
  assumes "extractTokenFromHeader (Authorization request) = Some tok"
    and "verifyToken (server_env srv) (clock srv) (decode_token srv tok) = Inl x
         \<or> (\<exists>payload.
               verifyToken (server_env srv) (clock srv) (decode_token srv tok) = Inr payload
               \<and> supabase srv (Select ''profiles''
                                  ''id, username, full_name, avatar_url, roles''
                                  ''id'' (userId payload)) = Inl x)"
  shows "response (loader srv request) =
           \<lparr>status = 401,
            body = ErrorBody ''Authentication failed''
                     (Some (case x of Error message \<Rightarrow> message
                            | NonError \<Rightarrow> ''Unknown error''))\<rparr>
         \<and> console_error (loader srv request) = [x]
         \<and> (verifyToken (server_env srv) (clock srv) (decode_token srv tok) = Inl x
              \<longrightarrow> response (loader srv request) =
                    \<lparr>status = 401,
                     body = ErrorBody ''Authentication failed''
                              (Some ''Invalid or expired token'')\<rparr>)"
proof -
  have "loader srv request = loader_catch x [] \<or>
        (\<exists>q. loader srv request = loader_catch x [q])"
    using assms(2) by (auto simp: loader_token [OF assms(1)])
  then have a: "response (loader srv request) =
                  \<lparr>status = 401,
                   body = ErrorBody ''Authentication failed''
                            (Some (case x of Error message \<Rightarrow> message
                                   | NonError \<Rightarrow> ''Unknown error''))\<rparr>"
    and b: "console_error (loader srv request) = [x]"
    by (auto simp: loader_catch_def json_def)
  have "verifyToken (server_env srv) (clock srv) (decode_token srv tok) = Inl x
          \<longrightarrow> x = Error ''Invalid or expired token''"
    by (auto dest: verifyToken_error_kind)
  with a b show ?thesis by auto
qed

theorem loader_exception_401_witness:
  "response
     (loader
        \<lparr>server_env = \<lparr>JWT_SECRET = ''s3cret''\<rparr>, clock = 5000,
         decode_token =
           (\<lambda>s. Jwt HS256
                  \<lparr>userId = Some ''u1'', role = None, sessionId = None,
                   iss = Some ''policy-sonar'', aud = Some [''web'', ''mobile''],
                   iat = Some 900, exp = Some 1800, nbf = None\<rparr>
                  (HMAC_SHA256 ''s3cret'' HS256
                     \<lparr>userId = Some ''u1'', role = None, sessionId = None,
                      iss = Some ''policy-sonar'', aud = Some [''web'', ''mobile''],
                      iat = Some 900, exp = Some 1800, nbf = None\<rparr>)),
         supabase = (\<lambda>q. Inr \<lparr>data = None, error = None\<rparr>)\<rparr>
        \<lparr>Authorization = Some ''Bearer abc.def.ghi''\<rparr>) =
   \<lparr>status = 401,
    body = ErrorBody ''Authentication failed'' (Some ''Invalid or expired token'')\<rparr>"
proof -
  let ?d = "\<lparr>userId = Some ''u1'', role = None, sessionId = None,
             iss = Some ''policy-sonar'', aud = Some [''web'', ''mobile''],
             iat = Some 900, exp = Some (1800::nat), nbf = None\<rparr>"
  let ?srv = "\<lparr>server_env = \<lparr>JWT_SECRET = ''s3cret''\<rparr>, clock = 5000,
               decode_token = (\<lambda>s. Jwt HS256 ?d (HMAC_SHA256 ''s3cret'' HS256 ?d)),
               supabase = (\<lambda>q. Inr \<lparr>data = None, error = None\<rparr>)\<rparr>"
  let ?req = "\<lparr>Authorization = Some ''Bearer abc.def.ghi''\<rparr>"
  have h1: "extractTokenFromHeader (Authorization ?req) = Some ''abc.def.ghi''"
    by (simp add: header_defs)
  have h2: "verifyToken (server_env ?srv) (clock ?srv) (decode_token ?srv ''abc.def.ghi'') =
              Inl (Error ''Invalid or expired token'')"
    by (simp add: codec_defs)
  show ?thesis using loader_exception_401 [OF h1 disjI1, OF h2] by simp
qed

text \<open>
  C4 as stated fails when the thrown value is not an \<open>Error\<close>: the token verifies, the
  store lookup throws such a value, and the details of the response are the fixed text
  \<open>Unknown error\<close>, not a message of what was thrown.
\<close>

theorem loader_non_error_counterexample:
  "response
     (loader
        \<lparr>server_env = \<lparr>JWT_SECRET = ''s3cret''\<rparr>, clock = 1000,
         decode_token =
           (\<lambda>s. Jwt HS256
                  \<lparr>userId = Some ''u1'', role = None, sessionId = None,
                   iss = Some ''policy-sonar'', aud = Some [''web'', ''mobile''],
                   iat = Some 900, exp = Some 1800, nbf = None\<rparr>
                  (HMAC_SHA256 ''s3cret'' HS256
                     \<lparr>userId = Some ''u1'', role = None, sessionId = None,
                      iss = Some ''policy-sonar'', aud = Some [''web'', ''mobile''],
                      iat = Some 900, exp = Some 1800, nbf = None\<rparr>)),
         supabase = (\<lambda>q. Inl NonError)\<rparr>
        \<lparr>Authorization = Some ''Bearer abc.def.ghi''\<rparr>) =
   \<lparr>status = 401, body = ErrorBody ''Authentication failed'' (Some ''Unknown error'')\<rparr>"
  by (simp add: loader_def loader_catch_def json_def header_defs codec_defs)

text \<open>
  C5. When the bearer token verifies and the store answers the lookup for the payload's
  \<open>userId\<close> with an error, or with no row, the loader returns status 404 with error
  \<open>User profile not found\<close> in both cases, and the only operation it sent to the store
  is that read: no write.
\<close>

theorem loader_profile_not_found:
  assumes "extractTokenFromHeader (Authorization request) = Some tok"
    and "verifyToken (server_env srv) (clock srv) (decode_token srv tok) = Inr payload"
    and "userId payload = Some u"
    and "supabase srv (Select ''profiles'' ''id, username, full_name, avatar_url, roles''
                         ''id'' (Some u)) = Inr result"
    and "error result \<noteq> None \<or> data result = None"
  shows "response (loader srv request) =
           \<lparr>status = 404, body = ErrorBody ''User profile not found'' None\<rparr>
         \<and> store_ops (loader srv request) =
             [Select ''profiles'' ''id, username, full_name, avatar_url, roles''
                ''id'' (Some u)]
         \<and> (\<forall>op \<in> set (store_ops (loader srv request)). \<not> is_write op)"
  using assms(2-5)
  by (auto simp: loader_token [OF assms(1)] json_def Let_def split: option.splits)

theorem loader_profile_not_found_witness:
  "response
     (loader
        \<lparr>server_env = \<lparr>JWT_SECRET = ''s3cret''\<rparr>, clock = 1000,
         decode_token =
           (\<lambda>s. Jwt HS256
                  \<lparr>userId = Some ''u1'', role = None, sessionId = None,
                   iss = Some ''policy-sonar'', aud = Some [''web'', ''mobile''],
                   iat = Some 900, exp = Some 1800, nbf = None\<rparr>
                  (HMAC_SHA256 ''s3cret'' HS256
                     \<lparr>userId = Some ''u1'', role = None, sessionId = None,
                      iss = Some ''policy-sonar'', aud = Some [''web'', ''mobile''],
                      iat = Some 900, exp = Some 1800, nbf = None\<rparr>)),
         supabase = (\<lambda>q. Inr \<lparr>data = None,
                                  error = Some (PostgrestError ''no rows returned'')\<rparr>)\<rparr>
        \<lparr>Authorization = Some ''Bearer abc.def.ghi''\<rparr>) =
   \<lparr>status = 404, body = ErrorBody ''User profile not found'' None\<rparr>"
proof -
  let ?d = "\<lparr>userId = Some ''u1'', role = None, sessionId = None,
             iss = Some ''policy-sonar'', aud = Some [''web'', ''mobile''],
             iat = Some 900, exp = Some (1800::nat), nbf = None\<rparr>"
  let ?res = "\<lparr>data = None, error = Some (PostgrestError ''no rows returned'')\<rparr>"
  let ?srv = "\<lparr>server_env = \<lparr>JWT_SECRET = ''s3cret''\<rparr>, clock = 1000,
               decode_token = (\<lambda>s. Jwt HS256 ?d (HMAC_SHA256 ''s3cret'' HS256 ?d)),
               supabase = (\<lambda>q. Inr ?res)\<rparr>"
  let ?req = "\<lparr>Authorization = Some ''Bearer abc.def.ghi''\<rparr>"
  have h1: "extractTokenFromHeader (Authorization ?req) = Some ''abc.def.ghi''"
    by (simp add: header_defs)
  have h2: "verifyToken (server_env ?srv) (clock ?srv) (decode_token ?srv ''abc.def.ghi'') =
              Inr ?d"
    by (simp add: codec_defs)
  have h3: "userId ?d = Some ''u1''" by simp
  have h4: "supabase ?srv (Select ''profiles'' ''id, username, full_name, avatar_url, roles''
                             ''id'' (Some ''u1'')) = Inr ?res"
    by simp
  have h5: "error ?res \<noteq> None \<or> data ?res = None" by simp
  show ?thesis using loader_profile_not_found [OF h1 h2 h3 h4 h5] by simp
qed

section \<open>Properties of the client auth context\<close>

text \<open>
  C8 (as amended). In every state, \<open>signOut\<close> makes exactly one call to the backend,
  the sign-out call, and resets \<open>isLoading\<close> to false whatever happens. Whenever that
  call returns, whether its answer reports an error or not, the local user and profile
  are cleared and \<open>signOut\<close> completes normally.
\<close>

theorem signOut_clears_when_call_returns:
  "(auth_signOut be = Inr res \<longrightarrow>
      signOut be s = (Inr (), \<lparr>user = None, profile = None, isLoading = False\<rparr>, [SignOut]))
   \<and> isLoading (fst (snd (signOut be s))) = False
   \<and> snd (snd (signOut be s)) = [SignOut]"
  by (auto simp: signOut_def Let_def split: sum.splits)

theorem signOut_clears_when_call_returns_witness:
  "signOut
     \<lparr>signInWithPassword = (\<lambda>email password. Inl NonError),
      auth_signOut = Inr \<lparr>signOut_error = Some (Error ''session missing'')\<rparr>,
      from_table = (\<lambda>q. Inl NonError)\<rparr>
     \<lparr>user = Some \<lparr>user_id = ''u1''\<rparr>,
      profile = Some \<lparr>profile_id = ''u1'', username = ''alice'', full_name = None,
                      avatar_url = None, roles = Some [''analyst'']\<rparr>,
      isLoading = False\<rparr> =
   (Inr (), \<lparr>user = None, profile = None, isLoading = False\<rparr>, [SignOut])"
proof -
  let ?res = "\<lparr>signOut_error = Some (Error ''session missing'')\<rparr>"
  let ?be = "\<lparr>signInWithPassword = (\<lambda>email password. Inl NonError),
              auth_signOut = Inr ?res, from_table = (\<lambda>q. Inl NonError)\<rparr>"
  have h: "auth_signOut ?be = Inr ?res" by simp
  show ?thesis
    using signOut_clears_when_call_returns [of ?be ?res] h by blast
qed

text \<open>
  C8 as stated fails when the backend call throws: the two clearing updates follow the
  call inside the \<open>try\<close> block, so they are skipped, and the user and profile that were
  cached before the call are still there after it.
\<close>

theorem signOut_throw_counterexample:
  "signOut
     \<lparr>signInWithPassword = (\<lambda>email password. Inl NonError),
      auth_signOut = Inl (Error ''Failed to fetch''),
      from_table = (\<lambda>q. Inl NonError)\<rparr>
     \<lparr>user = Some \<lparr>user_id = ''u1''\<rparr>,
      profile = Some \<lparr>profile_id = ''u1'', username = ''alice'', full_name = None,
                      avatar_url = None, roles = Some [''analyst'']\<rparr>,
      isLoading = False\<rparr> =
   (Inl (Error ''Failed to fetch''),
    \<lparr>user = Some \<lparr>user_id = ''u1''\<rparr>,
     profile = Some \<lparr>profile_id = ''u1'', username = ''alice'', full_name = None,
                     avatar_url = None, roles = Some [''analyst'']\<rparr>,
     isLoading = False\<rparr>,
    [SignOut])"
  by (simp add: signOut_def)

text \<open>
  C9. \<open>hasRole\<close> reads nothing but the cached profile and changes nothing. It is false
  when no profile is loaded; when one is loaded it is true exactly when the role is among
  the profile's roles, a profile without a roles field having none.
\<close>

theorem hasRole_membership:
  "(profile s = None \<longrightarrow> \<not> hasRole s r)
   \<and> (profile s = Some p \<longrightarrow>
        (hasRole s r \<longleftrightarrow> r \<in> (case roles p of None \<Rightarrow> {} | Some rs \<Rightarrow> set rs)))
   \<and> (profile s = profile s' \<longrightarrow> hasRole s r = hasRole s' r)"
  by (auto simp: hasRole_def split: option.splits)

theorem hasRole_membership_witness:
  "\<not> hasRole \<lparr>user = None, profile = None, isLoading = True\<rparr> ''admin''
   \<and> hasRole
        \<lparr>user = None,
         profile = Some \<lparr>profile_id = ''u1'', username = ''alice'', full_name = None,
                         avatar_url = None, roles = Some [''analyst'', ''admin'']\<rparr>,
         isLoading = False\<rparr> ''admin''
   \<and> \<not> hasRole
        \<lparr>user = None,
         profile = Some \<lparr>profile_id = ''u1'', username = ''alice'', full_name = None,
                         avatar_url = None, roles = Some [''analyst'', ''admin'']\<rparr>,
         isLoading = False\<rparr> ''policymaker''"
proof -
  let ?p = "\<lparr>profile_id = ''u1'', username = ''alice'', full_name = None,
             avatar_url = None, roles = Some [''analyst'', ''admin'']\<rparr>"
  let ?s = "\<lparr>user = None, profile = Some ?p, isLoading = False\<rparr>"
  let ?empty = "\<lparr>user = None, profile = None, isLoading = True\<rparr>"
  have a: "\<not> hasRole ?empty ''admin''"
    using hasRole_membership [where s = ?empty and r = "''admin''" and p = ?p and s' = ?empty]
    by simp
  have b: "hasRole ?s ''admin''"
    using hasRole_membership [where s = ?s and r = "''admin''" and p = ?p and s' = ?s]
    by simp
  have c: "\<not> hasRole ?s ''policymaker''"
    using hasRole_membership [where s = ?s and r = "''policymaker''" and p = ?p and s' = ?s]
    by simp
  from a b c show ?thesis by blast
qed

text \<open>
  C10. When the backend's credential check returns an answer that reports an error,
  \<open>signIn\<close> throws that error, the cached user and profile are what they were before
  the call, and \<open>isLoading\<close> is false afterwards; the only backend call made is the
  credential check.
\<close>

theorem signIn_backend_error:
  assumes "signInWithPassword be email password = Inr res"
    and "auth_error res = Some x"
  shows "signIn be email password s =
           (Inl x, s\<lparr>isLoading := False\<rparr>, [SignInWithPassword email password])
         \<and> user (fst (snd (signIn be email password s))) = user s
         \<and> profile (fst (snd (signIn be email password s))) = profile s
         \<and> isLoading (fst (snd (signIn be email password s))) = False"
  using assms by (simp add: signIn_def Let_def)

theorem signIn_backend_error_witness:
  "signIn
     \<lparr>signInWithPassword =
        (\<lambda>email password.
           Inr \<lparr>data_user = None, auth_error = Some (Error ''Invalid login credentials'')\<rparr>),
      auth_signOut = Inl NonError,
      from_table = (\<lambda>q. Inl NonError)\<rparr>
     ''alice@example.com'' ''wrong''
     \<lparr>user = Some \<lparr>user_id = ''u0''\<rparr>, profile = None, isLoading = False\<rparr> =
   (Inl (Error ''Invalid login credentials''),
    \<lparr>user = Some \<lparr>user_id = ''u0''\<rparr>, profile = None, isLoading = False\<rparr>,
    [SignInWithPassword ''alice@example.com'' ''wrong''])"
proof -
  let ?res = "\<lparr>data_user = None, auth_error = Some (Error ''Invalid login credentials'')\<rparr>"
  let ?be = "\<lparr>signInWithPassword = (\<lambda>email password. Inr ?res),
              auth_signOut = Inl NonError, from_table = (\<lambda>q. Inl NonError)\<rparr>"
  let ?s = "\<lparr>user = Some \<lparr>user_id = ''u0''\<rparr>, profile = None, isLoading = False\<rparr>"
  have h1: "signInWithPassword ?be ''alice@example.com'' ''wrong'' = Inr ?res" by simp
  have h2: "auth_error ?res = Some (Error ''Invalid login credentials'')" by simp
  show ?thesis
    using signIn_backend_error [OF h1 h2, of ?s] by simp
qed

end
